theory Spec2Isabelle
  imports Main
begin

section \<open>Values, settled promises and observable events\<close>

text \<open>
  The repository is a thin layer of asynchronous TypeScript functions over three
  platform bindings: \<^verbatim>\<open>PermissionsAndroid\<close>, \<^verbatim>\<open>Geolocation\<close> and
  \<^verbatim>\<open>RNBluetoothClassic\<close> (with \<^verbatim>\<open>ToastAndroid\<close> and the console for
  reporting). Every exported function is embedded as a function from the behaviour of the
  platform to the list of events the call produces, in order, together with the way its
  promise settles.
\<close>

datatype device = BluetoothDevice (address: string)

text \<open>The JavaScript values that the functions resolve to, throw or print.\<close>

datatype jsval =
    JUndefined
  | JNull
  | JBool bool
  | JNum int
  | JStr string
  | JError string
  | JDevice device
  | JDevices "device list"

text \<open>
  A settled promise: \<open>Resolved v\<close> is a fulfilled promise (or a normal return),
  \<open>Rejected e\<close> a rejected one (or a \<^verbatim>\<open>throw\<close>) with the thrown value.
\<close>

datatype 'a settled = Resolved 'a | Rejected jsval

datatype permission = BLUETOOTH_SCAN | BLUETOOTH_CONNECT | ACCESS_FINE_LOCATION

datatype permission_status = GRANTED | DENIED | NEVER_ASK_AGAIN

datatype callback = Callback nat

text \<open>
  A subscription is an object with one method, \<^verbatim>\<open>remove: () => void\<close>. It is
  identified by a number, and carries what its \<^verbatim>\<open>remove\<close> does when called:
  return, or throw a value (the same at every call, should a list hold it twice).
\<close>

datatype subscription = Subscription (sub_id: nat) (remove_outcome: "unit settled")

text \<open>
  \<^verbatim>\<open>Geolocation.getCurrentPosition(success, error, options)\<close> either calls the
  success callback, calls the error callback with an error carrying a message, calls
  neither, or throws at once.
\<close>

datatype geo_behaviour = GeoSuccess | GeoFailure string | GeoSilent | GeoThrows jsval

datatype toast_const = SHORT | LONG | TOP | BOTTOM | CENTER

datatype level = Log | Warn | Error

text \<open>Calls that cross the boundary to a platform binding.\<close>

datatype native_call =
    RequestMultiple "permission list"
  | Check permission
  | GetCurrentPosition bool nat nat
  | IsBluetoothEnabled
  | RequestBluetoothEnabled
  | StartDiscovery
  | CancelDiscovery
  | ConnectToDevice string string
  | DisconnectFromDevice string
  | PairDevice string
  | UnpairDevice string
  | GetBondedDevices
  | GetConnectedDevices
  | OnBluetoothEnabled callback
  | OnBluetoothDisabled callback
  | OnStateChanged callback
  | OnDeviceConnected callback
  | OnDeviceDisconnected callback
  | OpenBluetoothSettings
  | DeviceRead device
  | DeviceWrite device string
  | DeviceAvailable device
  | DeviceClear device
  | Remove nat

datatype event =
    Native native_call
  | Console level "jsval list"
  | Toast string toast_const

type_synonym 'a action = "event list \<times> 'a settled"

text \<open>
  The behaviour of the platform during one call of an exported function. No exported
  function calls the same binding method twice with the same arguments, so one outcome
  for each method and argument describes every run.

  Where the source awaits a binding call at once, a call that throws and a call whose
  promise rejects take the same path, and \<open>Rejected\<close> stands for both.
  \<^verbatim>\<open>PermissionsAndroid.check\<close> is different: \<open>checkAllPermissions\<close> first collects
  the promises of all its calls and awaits them afterwards. The outcome of \<open>pa_check\<close>
  is therefore that of the call itself (\<open>Rejected\<close>: it throws at once; \<open>Resolved\<close>: it
  returns a promise), with the way the returned promise settles inside.
  \<open>pa_check_order\<close> lists positions in \<open>ALL_PERMISSIONS\<close> in the order in which these
  promises settle; promises it does not list settle afterwards, in list order.
\<close>

record platform =
  pa_requestMultiple :: "permission list \<Rightarrow> (permission \<rightharpoonup> permission_status) settled"
  pa_check :: "permission \<Rightarrow> bool settled settled"
  pa_check_order :: "nat list"
  geo_getCurrentPosition :: geo_behaviour
  rn_isBluetoothEnabled :: "bool settled"
  rn_requestBluetoothEnabled :: "bool settled"
  rn_startDiscovery :: "device list settled"
  rn_cancelDiscovery :: "bool settled"
  rn_connectToDevice :: "string \<Rightarrow> device option settled"
  rn_disconnectFromDevice :: "string \<Rightarrow> bool settled"
  rn_pairDevice :: "string \<Rightarrow> device option settled"
  rn_unpairDevice :: "string \<Rightarrow> bool settled"
  rn_getBondedDevices :: "device list settled"
  rn_getConnectedDevices :: "device list settled"
  rn_onBluetoothEnabled :: "callback \<Rightarrow> subscription settled"
  rn_onBluetoothDisabled :: "callback \<Rightarrow> subscription settled"
  rn_onStateChanged :: "callback \<Rightarrow> subscription settled"
  rn_onDeviceConnected :: "callback \<Rightarrow> subscription settled"
  rn_onDeviceDisconnected :: "callback \<Rightarrow> subscription settled"
  rn_openBluetoothSettings :: "unit settled"
  dev_read :: "device \<Rightarrow> string settled"
  dev_write :: "device \<Rightarrow> string \<Rightarrow> bool settled"
  dev_available :: "device \<Rightarrow> int settled"
  dev_clear :: "device \<Rightarrow> bool settled"

section \<open>Control flow of asynchronous functions\<close>

definition ret :: "'a \<Rightarrow> 'a action" where
  "ret v = ([], Resolved v)"

definition throw :: "jsval \<Rightarrow> 'a action" where
  "throw e = ([], Rejected e)"

text \<open>\<^verbatim>\<open>const v = await m; k(v)\<close>: a rejection of \<open>m\<close> skips the rest.\<close>

definition await :: "'a action \<Rightarrow> ('a \<Rightarrow> 'b action) \<Rightarrow> 'b action" where
  "await m k =
     (case m of
        (t, Rejected e) \<Rightarrow> (t, Rejected e)
      | (t, Resolved v) \<Rightarrow> (case k v of (t', r) \<Rightarrow> (t @ t', r)))"

text \<open>\<^verbatim>\<open>try { m } catch (e) { h(e) }\<close>\<close>

definition try_catch :: "'a action \<Rightarrow> (jsval \<Rightarrow> 'a action) \<Rightarrow> 'a action" where
  "try_catch m h =
     (case m of
        (t, Rejected e) \<Rightarrow> (case h e of (t', r) \<Rightarrow> (t @ t', r))
      | (t, Resolved v) \<Rightarrow> (t, Resolved v))"

text \<open>
  \<^verbatim>\<open>try { m } finally { f }\<close>: \<open>f\<close> runs whatever \<open>m\<close> did; when \<open>f\<close> throws,
  its exception replaces the outcome of \<open>m\<close>.
\<close>

definition try_finally :: "'a action \<Rightarrow> unit action \<Rightarrow> 'a action" where
  "try_finally m f =
     (case m of (t, r) \<Rightarrow>
        (case f of
           (t', Rejected e) \<Rightarrow> (t @ t', Rejected e)
         | (t', Resolved u) \<Rightarrow> (t @ t', r)))"

definition native :: "native_call \<Rightarrow> 'a settled \<Rightarrow> 'a action" where
  "native c r = ([Native c], r)"

text \<open>
  A call of \<^verbatim>\<open>console.log\<close>, \<^verbatim>\<open>console.warn\<close> or \<^verbatim>\<open>console.error\<close>, and
  a call of \<^verbatim>\<open>ToastAndroid.show\<close>: each is recorded with its arguments and returns;
  none of them throws.
\<close>

definition console :: "level \<Rightarrow> jsval list \<Rightarrow> unit action" where
  "console l args = ([Console l args], Resolved ())"

definition ToastAndroid_show :: "string \<Rightarrow> toast_const \<Rightarrow> unit action" where
  "ToastAndroid_show msg d = ([Toast msg d], Resolved ())"

text \<open>
  \<^verbatim>\<open>xs.map(f)\<close>: the calls are made in list order, and the first call that throws
  ends the iteration.
\<close>

fun map_calls :: "('a \<Rightarrow> 'b action) \<Rightarrow> 'a list \<Rightarrow> 'b list action" where
  "map_calls f [] = ret []"
| "map_calls f (x # xs) = await (f x) (\<lambda>y. await (map_calls f xs) (\<lambda>ys. ret (y # ys)))"

text \<open>
  \<^verbatim>\<open>Promise.all(promises)\<close> resolves to the list of values when every promise
  resolves, and rejects with the rejection that comes first in time otherwise.
  \<open>order\<close> gives the positions of the promises in the order in which they settle.
\<close>

fun first_rejection :: "'a settled list \<Rightarrow> nat list \<Rightarrow> jsval option" where
  "first_rejection promises [] = None"
| "first_rejection promises (i # order) =
     (if i < length promises then
        (case promises ! i of
           Rejected e \<Rightarrow> Some e
         | Resolved v \<Rightarrow> first_rejection promises order)
      else first_rejection promises order)"

fun resolved_values :: "'a settled list \<Rightarrow> 'a list" where
  "resolved_values [] = []"
| "resolved_values (Resolved v # promises) = v # resolved_values promises"
| "resolved_values (Rejected e # promises) = resolved_values promises"

definition Promise_all :: "nat list \<Rightarrow> 'a settled list \<Rightarrow> 'a list action" where
  "Promise_all order promises =
     (case first_rejection promises (order @ [0..<length promises]) of
        Some e \<Rightarrow> throw e
      | None \<Rightarrow> ret (resolved_values promises))"

text \<open>\<^verbatim>\<open>xs.forEach(f)\<close>: the first call of \<open>f\<close> that throws ends the iteration.\<close>

fun forEach :: "('a \<Rightarrow> unit action) \<Rightarrow> 'a list \<Rightarrow> unit action" where
  "forEach f [] = ret ()"
| "forEach f (x # xs) = await (f x) (\<lambda>u. forEach f xs)"

text \<open>\<^verbatim>\<open>xs.join(sep)\<close> on a list of strings.\<close>

fun join :: "string \<Rightarrow> string list \<Rightarrow> string" where
  "join sep [] = []"
| "join sep [x] = x"
| "join sep (x # y # ys) = x @ sep @ join sep (y # ys)"

text \<open>Decimal digits of a number, for template literals.\<close>

function decimal :: "nat \<Rightarrow> string" where
  "decimal n =
     (if n < 10 then [char_of (48 + n)]
      else decimal (n div 10) @ [char_of (48 + n mod 10)])"
  by pat_completeness auto
termination
  by (relation "measure id") auto

definition number_string :: "int \<Rightarrow> string" where
  "number_string i = (if i < 0 then CHR ''-'' # decimal (nat (- i)) else decimal (nat i))"

section \<open>permission.ts\<close>

definition ALL_PERMISSIONS :: "permission list" where
  "ALL_PERMISSIONS = [BLUETOOTH_SCAN, BLUETOOTH_CONNECT, ACCESS_FINE_LOCATION]"

text \<open>The strings behind \<^verbatim>\<open>PermissionsAndroid.PERMISSIONS\<close>.\<close>

fun permission_name :: "permission \<Rightarrow> string" where
  "permission_name BLUETOOTH_SCAN = ''android.permission.BLUETOOTH_SCAN''"
| "permission_name BLUETOOTH_CONNECT = ''android.permission.BLUETOOTH_CONNECT''"
| "permission_name ACCESS_FINE_LOCATION = ''android.permission.ACCESS_FINE_LOCATION''"

definition requestAllPermissions :: "platform \<Rightarrow> bool action" where
  "requestAllPermissions p =
     try_catch
       (await (native (RequestMultiple ALL_PERMISSIONS) (pa_requestMultiple p ALL_PERMISSIONS))
          (\<lambda>granted.
             let allGranted =
                   list_all (\<lambda>permission. granted permission = Some GRANTED) ALL_PERMISSIONS
             in if \<not> allGranted then
                  let notGranted =
                        filter (\<lambda>permission. granted permission \<noteq> Some GRANTED) ALL_PERMISSIONS;
                      alertMessage =
                        join [CHR 0x0A]
                          (map (\<lambda>permission. permission_name permission @ '' is not granted.'')
                             notGranted)
                  in await (console Warn [JStr alertMessage]) (\<lambda>u. ret False)
                else
                  await (console Log [JStr ''ALL GRANTED'', JBool allGranted])
                    (\<lambda>u. ret allGranted)))
       (\<lambda>error.
          await (console Error [JStr ''Error requesting permissions'', error]) (\<lambda>u. ret False))"

definition checkAllPermissions :: "platform \<Rightarrow> bool action" where
  "checkAllPermissions p =
     try_catch
       (await
          (map_calls (\<lambda>permission. native (Check permission) (pa_check p permission))
             ALL_PERMISSIONS)
          (\<lambda>promises.
       await (Promise_all (pa_check_order p) promises)
          (\<lambda>results.
             let allGranted = list_all (\<lambda>isGranted. isGranted) results
             in if \<not> allGranted then
                  let notGranted =
                        map (\<lambda>index. ALL_PERMISSIONS ! index)
                          (filter (\<lambda>index. \<not> results ! index) [0..<length ALL_PERMISSIONS]);
                      alertMessage =
                        join [CHR 0x0A]
                          (map (\<lambda>permission. permission_name permission @ '' is not granted.'')
                             notGranted)
                  in await (console Warn [JStr alertMessage]) (\<lambda>u. ret False)
                else ret allGranted)))
       (\<lambda>error.
          await (console Error [JStr ''Error checking permissions'', error]) (\<lambda>u. ret False))"

text \<open>
  \<^verbatim>\<open>requestLocationService\<close> wraps the callbacks of the location fix in a promise:
  \<open>None\<close> is a promise that never settles, when the platform calls neither callback.
\<close>

definition requestLocationService :: "platform \<Rightarrow> event list \<times> bool settled option" where
  "requestLocationService p =
     (case geo_getCurrentPosition p of
        GeoSuccess \<Rightarrow> ([Native (GetCurrentPosition True 15000 10000)], Some (Resolved True))
      | GeoFailure message \<Rightarrow>
          ([Native (GetCurrentPosition True 15000 10000), Console Error [JStr message]],
           Some (Resolved False))
      | GeoSilent \<Rightarrow> ([Native (GetCurrentPosition True 15000 10000)], None)
      | GeoThrows e \<Rightarrow> ([Native (GetCurrentPosition True 15000 10000)], Some (Rejected e)))"

section \<open>The Bluetooth module\<close>

definition isBluetoothEnabled :: "platform \<Rightarrow> bool action" where
  "isBluetoothEnabled p =
     try_catch
       (await (native IsBluetoothEnabled (rn_isBluetoothEnabled p)) (\<lambda>enabled. ret enabled))
       (\<lambda>err.
          await (console Error [err])
            (\<lambda>u. throw (JError ''Failed to check if Bluetooth is enabled'')))"

text \<open>
  The body awaits the binding's call and has no \<^verbatim>\<open>return\<close>: the promise resolves to
  \<^verbatim>\<open>undefined\<close>.
\<close>

definition enableBluetooth :: "platform \<Rightarrow> jsval action" where
  "enableBluetooth p =
     try_catch
       (await (native RequestBluetoothEnabled (rn_requestBluetoothEnabled p))
          (\<lambda>enabled. ret JUndefined))
       (\<lambda>error.
          await (console Error [JStr ''Error enabling Bluetooth'', error])
            (\<lambda>u. throw (JError ''Failed to enable Bluetooth'')))"

definition startDiscovery :: "platform \<Rightarrow> jsval action" where
  "startDiscovery p =
     await (isBluetoothEnabled p) (\<lambda>isBLenabled.
     await (checkAllPermissions p) (\<lambda>allPermission.
       if \<not> isBLenabled then
         await (enableBluetooth p) (\<lambda>enableBL. ret enableBL)
       else if \<not> allPermission then
         ret (JBool allPermission)
       else
         try_finally
           (try_catch
              (await (native StartDiscovery (rn_startDiscovery p))
                 (\<lambda>unpaired. ret (JDevices unpaired)))
              (\<lambda>error. await (console Error [error]) (\<lambda>u. ret error)))
           (await (native CancelDiscovery (rn_cancelDiscovery p))
              (\<lambda>cancelled. console Log [JStr ''Discovery stopped'']))))"

definition stopDiscovery :: "platform \<Rightarrow> unit action" where
  "stopDiscovery p =
     try_catch
       (await (native CancelDiscovery (rn_cancelDiscovery p))
          (\<lambda>cancelled. console Log [JBool cancelled]))
       (\<lambda>error.
          ToastAndroid_show ''Error occurred while attempting to cancel discover devices'' BOTTOM)"

definition connectDevice :: "platform \<Rightarrow> string \<Rightarrow> jsval action" where
  "connectDevice p deviceId =
     try_catch
       (await (native (ConnectToDevice deviceId [CHR 0x0D]) (rn_connectToDevice p deviceId))
          (\<lambda>connected.
             case connected of
               None \<Rightarrow> throw (JError (''Failed to connect to device: '' @ deviceId))
             | Some dev \<Rightarrow>
                 await (console Log [JStr (''Connected to device: '' @ deviceId)])
                   (\<lambda>u. ret (JDevice dev))))
       (\<lambda>error.
          await (ToastAndroid_show (''Error connecting to device: '' @ deviceId) BOTTOM)
            (\<lambda>u. ret (JBool False)))"

definition disconnectDevice :: "platform \<Rightarrow> string \<Rightarrow> bool action" where
  "disconnectDevice p deviceId =
     try_catch
       (await (native (DisconnectFromDevice deviceId) (rn_disconnectFromDevice p deviceId))
          (\<lambda>disconnected.
             if \<not> disconnected then
               throw (JError (''Failed to disconnect from device: '' @ deviceId))
             else
               await (console Log [JStr (''Disconnected from device: '' @ deviceId)])
                 (\<lambda>u. ret disconnected)))
       (\<lambda>error.
          await (console Error [JStr (''Error disconnecting from device: '' @ deviceId), error])
            (\<lambda>u. throw error))"

definition pairDevice :: "platform \<Rightarrow> string \<Rightarrow> device action" where
  "pairDevice p deviceId =
     try_catch
       (await (native (PairDevice deviceId) (rn_pairDevice p deviceId))
          (\<lambda>paired.
             case paired of
               None \<Rightarrow> throw (JError (''Failed to pair with device: '' @ deviceId))
             | Some dev \<Rightarrow> ret dev))
       (\<lambda>error.
          await (console Error [JStr (''Error pairing with device: '' @ deviceId), error])
            (\<lambda>u. throw error))"

definition unPairDevice :: "platform \<Rightarrow> string \<Rightarrow> bool action" where
  "unPairDevice p deviceId =
     try_catch
       (await (native (UnpairDevice deviceId) (rn_unpairDevice p deviceId))
          (\<lambda>unpaired.
             if \<not> unpaired then
               throw (JError (''Failed to unpair with device: '' @ deviceId))
             else ret unpaired))
       (\<lambda>error.
          await (console Error [JStr (''Error unpairing with device: '' @ deviceId), error])
            (\<lambda>u. throw error))"

definition getPairedDevices :: "platform \<Rightarrow> device list action" where
  "getPairedDevices p =
     try_catch
       (await (native GetBondedDevices (rn_getBondedDevices p))
          (\<lambda>pairedDevices. ret pairedDevices))
       (\<lambda>err. await (console Error [JStr ''Error getting paired devices'', err]) (\<lambda>u. ret []))"

definition getConnectedDevice :: "platform \<Rightarrow> device list action" where
  "getConnectedDevice p =
     try_catch
       (await (native GetConnectedDevices (rn_getConnectedDevices p))
          (\<lambda>connectedDevices. ret connectedDevices))
       (\<lambda>err.
          await (console Error [JStr ''Error getting connected devices'', err]) (\<lambda>u. ret []))"

definition getBondedDevices :: "platform \<Rightarrow> device list action" where
  "getBondedDevices p =
     try_catch
       (await (native GetBondedDevices (rn_getBondedDevices p))
          (\<lambda>bondedDevices. ret bondedDevices))
       (\<lambda>error.
          await (console Error [JStr ''Error fetching bonded devices:'', error])
            (\<lambda>u. throw (JError ''Failed to fetch bonded devices'')))"

definition onBluetoothEnabled :: "platform \<Rightarrow> callback \<Rightarrow> subscription action" where
  "onBluetoothEnabled p cb =
     await (native (OnBluetoothEnabled cb) (rn_onBluetoothEnabled p cb))
       (\<lambda>subscription. ret subscription)"

definition onBluetoothDisabled :: "platform \<Rightarrow> callback \<Rightarrow> subscription action" where
  "onBluetoothDisabled p cb =
     await (native (OnBluetoothDisabled cb) (rn_onBluetoothDisabled p cb))
       (\<lambda>subscription. ret subscription)"

definition onStateChanged :: "platform \<Rightarrow> callback \<Rightarrow> subscription action" where
  "onStateChanged p cb =
     await (native (OnStateChanged cb) (rn_onStateChanged p cb))
       (\<lambda>subscription. ret subscription)"

definition onDeviceConnected :: "platform \<Rightarrow> callback \<Rightarrow> subscription action" where
  "onDeviceConnected p cb =
     await (native (OnDeviceConnected cb) (rn_onDeviceConnected p cb))
       (\<lambda>subscription. ret subscription)"

definition onDeviceDisconnected :: "platform \<Rightarrow> callback \<Rightarrow> subscription action" where
  "onDeviceDisconnected p cb =
     await (native (OnDeviceDisconnected cb) (rn_onDeviceDisconnected p cb))
       (\<lambda>subscription. ret subscription)"

definition openBluetoothSettings :: "platform \<Rightarrow> unit action" where
  "openBluetoothSettings p =
     try_catch
       (await (native OpenBluetoothSettings (rn_openBluetoothSettings p))
          (\<lambda>u. ToastAndroid_show ''Bluetooth settings opened'' SHORT))
       (\<lambda>error.
          await (console Error [JStr ''Error opening Bluetooth settings:'', error])
            (\<lambda>u. throw (JError ''Failed to open Bluetooth settings'')))"

text \<open>\<^verbatim>\<open>subscription.remove()\<close>\<close>

definition remove_subscription :: "subscription \<Rightarrow> unit action" where
  "remove_subscription subscription =
     native (Remove (sub_id subscription)) (remove_outcome subscription)"

definition cleanupSubscriptions :: "subscription list \<Rightarrow> unit action" where
  "cleanupSubscriptions subscriptions =
     forEach (\<lambda>subscription. remove_subscription subscription) subscriptions"

text \<open>
  The four device functions take a \<^verbatim>\<open>BluetoothDevice\<close>; \<open>None\<close> is a falsy
  argument (\<^verbatim>\<open>null\<close> or \<^verbatim>\<open>undefined\<close>), which the test \<^verbatim>\<open>!device\<close> catches.
\<close>

definition read :: "platform \<Rightarrow> device option \<Rightarrow> string action" where
  "read p device =
     try_catch
       (case device of
          None \<Rightarrow> throw (JError ''No device connected.'')
        | Some dev \<Rightarrow>
            await (native (DeviceRead dev) (dev_read p dev))
              (\<lambda>data.
                 await (console Log [JStr (''Data read from device: '' @ data)])
                   (\<lambda>u. ret data)))
       (\<lambda>error.
          await (console Error [JStr ''Error reading data from device:'', error])
            (\<lambda>u. throw (JError ''Failed to read data from device'')))"

definition "write" :: "platform \<Rightarrow> device option \<Rightarrow> string \<Rightarrow> bool action" where
  "write p device data =
     try_catch
       (case device of
          None \<Rightarrow> throw (JError ''No device connected.'')
        | Some dev \<Rightarrow>
            await (native (DeviceWrite dev data) (dev_write p dev data))
              (\<lambda>success.
                 if success then
                   await (console Log [JStr (''Data written to device: '' @ data)])
                     (\<lambda>u. ret success)
                 else ret success))
       (\<lambda>error.
          await (console Error [JStr (''Error writing data to device: '' @ data), error])
            (\<lambda>u. throw (JError ''Failed to write data to device'')))"

definition available :: "platform \<Rightarrow> device option \<Rightarrow> int action" where
  "available p device =
     try_catch
       (case device of
          None \<Rightarrow> throw (JError ''No device connected.'')
        | Some dev \<Rightarrow>
            await (native (DeviceAvailable dev) (dev_available p dev))
              (\<lambda>bytesAvailable.
                 await
                   (console Log
                      [JStr (''Bytes available to read: '' @ number_string bytesAvailable)])
                   (\<lambda>u. ret bytesAvailable)))
       (\<lambda>error.
          await (console Error [JStr ''Error checking available bytes:'', error])
            (\<lambda>u. throw (JError ''Failed to check available bytes'')))"

definition clear :: "platform \<Rightarrow> device option \<Rightarrow> bool action" where
  "clear p device =
     try_catch
       (case device of
          None \<Rightarrow> throw (JError ''No device connected.'')
        | Some dev \<Rightarrow>
            await (native (DeviceClear dev) (dev_clear p dev))
              (\<lambda>cleared. await (console Log [JStr ''Buffer cleared'']) (\<lambda>u. ret cleared)))
       (\<lambda>error.
          await (console Error [JStr ''Error clearing buffer:'', error])
            (\<lambda>u. throw (JError ''Failed to clear buffer'')))"

section \<open>The exported operations as one interface\<close>

datatype operation =
    Op_requestAllPermissions
  | Op_checkAllPermissions
  | Op_requestLocationService
  | Op_isBluetoothEnabled
  | Op_enableBluetooth
  | Op_startDiscovery
  | Op_stopDiscovery
  | Op_connectDevice string
  | Op_disconnectDevice string
  | Op_pairDevice string
  | Op_unPairDevice string
  | Op_getPairedDevices
  | Op_getConnectedDevice
  | Op_getBondedDevices
  | Op_onBluetoothEnabled callback
  | Op_onBluetoothDisabled callback
  | Op_onStateChanged callback
  | Op_onDeviceConnected callback
  | Op_onDeviceDisconnected callback
  | Op_openBluetoothSettings
  | Op_cleanupSubscriptions "subscription list"
  | Op_read "device option"
  | Op_write "device option" string
  | Op_available "device option"
  | Op_clear "device option"

text \<open>The events of one call of an exported function.\<close>

fun emitted :: "platform \<Rightarrow> operation \<Rightarrow> event list" where
  "emitted p Op_requestAllPermissions = fst (requestAllPermissions p)"
| "emitted p Op_checkAllPermissions = fst (checkAllPermissions p)"
| "emitted p Op_requestLocationService = fst (requestLocationService p)"
| "emitted p Op_isBluetoothEnabled = fst (isBluetoothEnabled p)"
| "emitted p Op_enableBluetooth = fst (enableBluetooth p)"
| "emitted p Op_startDiscovery = fst (startDiscovery p)"
| "emitted p Op_stopDiscovery = fst (stopDiscovery p)"
| "emitted p (Op_connectDevice deviceId) = fst (connectDevice p deviceId)"
| "emitted p (Op_disconnectDevice deviceId) = fst (disconnectDevice p deviceId)"
| "emitted p (Op_pairDevice deviceId) = fst (pairDevice p deviceId)"
| "emitted p (Op_unPairDevice deviceId) = fst (unPairDevice p deviceId)"
| "emitted p Op_getPairedDevices = fst (getPairedDevices p)"
| "emitted p Op_getConnectedDevice = fst (getConnectedDevice p)"
| "emitted p Op_getBondedDevices = fst (getBondedDevices p)"
| "emitted p (Op_onBluetoothEnabled cb) = fst (onBluetoothEnabled p cb)"
| "emitted p (Op_onBluetoothDisabled cb) = fst (onBluetoothDisabled p cb)"
| "emitted p (Op_onStateChanged cb) = fst (onStateChanged p cb)"
| "emitted p (Op_onDeviceConnected cb) = fst (onDeviceConnected p cb)"
| "emitted p (Op_onDeviceDisconnected cb) = fst (onDeviceDisconnected p cb)"
| "emitted p Op_openBluetoothSettings = fst (openBluetoothSettings p)"
| "emitted p (Op_cleanupSubscriptions subscriptions) = fst (cleanupSubscriptions subscriptions)"
| "emitted p (Op_read device) = fst (read p device)"
| "emitted p (Op_write device data) = fst (write p device data)"
| "emitted p (Op_available device) = fst (available p device)"
| "emitted p (Op_clear device) = fst (clear p device)"

fun is_toast :: "event \<Rightarrow> bool" where
  "is_toast (Toast msg d) = True"
| "is_toast (Native c) = False"
| "is_toast (Console l args) = False"

definition toasts :: "event list \<Rightarrow> event list" where
  "toasts t = filter is_toast t"

fun is_native :: "event \<Rightarrow> bool" where
  "is_native (Native c) = True"
| "is_native e = False"

definition is_rejected :: "'a settled \<Rightarrow> bool" where
  "is_rejected r = (case r of Rejected e \<Rightarrow> True | Resolved v \<Rightarrow> False)"

text \<open>
  The permissions for which \<open>checkAllPermissions\<close> reaches the call of
  \<^verbatim>\<open>PermissionsAndroid.check\<close>: all of them, or those up to the first call that throws.
\<close>

definition attempted_checks :: "platform \<Rightarrow> permission list" where
  "attempted_checks p =
     takeWhile (\<lambda>perm. \<not> is_rejected (pa_check p perm)) ALL_PERMISSIONS @
     take 1 (dropWhile (\<lambda>perm. \<not> is_rejected (pa_check p perm)) ALL_PERMISSIONS)"

text \<open>How often a binding method was called in a run.\<close>

definition calls :: "native_call \<Rightarrow> event list \<Rightarrow> nat" where
  "calls c t = length (filter (\<lambda>e. e = Native c) t)"

section \<open>Sample platforms\<close>

text \<open>A platform on which every binding call succeeds and every permission is granted.\<close>

definition working_platform :: platform where
  "working_platform =
     \<lparr> pa_requestMultiple = (\<lambda>ps. Resolved (map_of (map (\<lambda>perm. (perm, GRANTED)) ps))),
       pa_check = (\<lambda>perm. Resolved (Resolved True)),
       pa_check_order = [],
       geo_getCurrentPosition = GeoSuccess,
       rn_isBluetoothEnabled = Resolved True,
       rn_requestBluetoothEnabled = Resolved True,
       rn_startDiscovery = Resolved [BluetoothDevice ''AA:BB''],
       rn_cancelDiscovery = Resolved True,
       rn_connectToDevice = (\<lambda>deviceId. Resolved (Some (BluetoothDevice deviceId))),
       rn_disconnectFromDevice = (\<lambda>deviceId. Resolved True),
       rn_pairDevice = (\<lambda>deviceId. Resolved (Some (BluetoothDevice deviceId))),
       rn_unpairDevice = (\<lambda>deviceId. Resolved True),
       rn_getBondedDevices = Resolved [],
       rn_getConnectedDevices = Resolved [],
       rn_onBluetoothEnabled = (\<lambda>cb. Resolved (Subscription 1 (Resolved ()))),
       rn_onBluetoothDisabled = (\<lambda>cb. Resolved (Subscription 2 (Resolved ()))),
       rn_onStateChanged = (\<lambda>cb. Resolved (Subscription 3 (Resolved ()))),
       rn_onDeviceConnected = (\<lambda>cb. Resolved (Subscription 4 (Resolved ()))),
       rn_onDeviceDisconnected = (\<lambda>cb. Resolved (Subscription 5 (Resolved ()))),
       rn_openBluetoothSettings = Resolved (),
       dev_read = (\<lambda>dev. Resolved ''ok''),
       dev_write = (\<lambda>dev data. Resolved True),
       dev_available = (\<lambda>dev. Resolved 2),
       dev_clear = (\<lambda>dev. Resolved True) \<rparr>"

text \<open>A platform on which every call into the Bluetooth binding fails.\<close>

definition broken_platform :: platform where
  "broken_platform =
     working_platform
       \<lparr> rn_isBluetoothEnabled := Rejected (JError ''native''),
         rn_requestBluetoothEnabled := Rejected (JError ''native''),
         rn_startDiscovery := Rejected (JError ''native''),
         rn_cancelDiscovery := Rejected (JError ''native''),
         rn_connectToDevice := (\<lambda>deviceId. Rejected (JError ''native'')),
         rn_openBluetoothSettings := Rejected (JError ''native''),
         dev_read := (\<lambda>dev. Rejected (JError ''native'')),
         dev_write := (\<lambda>dev data. Rejected (JError ''native'')),
         dev_available := (\<lambda>dev. Rejected (JError ''native'')),
         dev_clear := (\<lambda>dev. Rejected (JError ''native'')) \<rparr>"

text \<open>Bluetooth is switched off, and the user refuses the location permission.\<close>

definition disabled_platform :: platform where
  "disabled_platform =
     working_platform
       \<lparr> rn_isBluetoothEnabled := Resolved False,
         pa_check := (\<lambda>perm. Resolved (Resolved (perm \<noteq> ACCESS_FINE_LOCATION))) \<rparr>"

text \<open>Bluetooth is on and permitted, and the discovery itself fails.\<close>

definition failing_discovery_platform :: platform where
  "failing_discovery_platform =
     working_platform \<lparr> rn_startDiscovery := Rejected (JError ''scan failed'') \<rparr>"


section \<open>Auxiliary facts\<close>

lemmas flow_defs = ret_def throw_def await_def try_catch_def try_finally_def native_def
  console_def ToastAndroid_show_def

lemma requestAll_result:
  "snd (requestAllPermissions p) =
     Resolved (case pa_requestMultiple p ALL_PERMISSIONS of
                 Resolved granted \<Rightarrow> (\<forall>perm \<in> set ALL_PERMISSIONS. granted perm = Some GRANTED)
               | Rejected e \<Rightarrow> False)"
  by (cases "pa_requestMultiple p ALL_PERMISSIONS")
     (simp_all add: requestAllPermissions_def flow_defs Let_def list_all_iff)

lemma first_rejection_None_iff:
  "first_rejection promises order = None \<longleftrightarrow>
     (\<forall>i \<in> set order. i < length promises \<longrightarrow> \<not> is_rejected (promises ! i))"
  by (induction order) (auto simp: is_rejected_def split: settled.splits)

lemma Promise_all_resolved:
  assumes "\<forall>r \<in> set promises. \<not> is_rejected r"
  shows "Promise_all order promises = ([], Resolved (resolved_values promises))"
proof -
  have "first_rejection promises (order @ [0..<length promises]) = None"
    using assms by (simp add: first_rejection_None_iff)
  then show ?thesis
    by (simp add: Promise_all_def ret_def)
qed

lemma Promise_all_rejected:
  assumes "\<exists>r \<in> set promises. is_rejected r"
  shows "\<exists>e. Promise_all order promises = ([], Rejected e)"
proof -
  from assms obtain i where "i < length promises" and "is_rejected (promises ! i)"
    by (auto simp: in_set_conv_nth)
  then have "first_rejection promises (order @ [0..<length promises]) \<noteq> None"
    by (auto simp: first_rejection_None_iff)
  then show ?thesis
    by (auto simp: Promise_all_def throw_def)
qed

lemma checkAll_shape:
  "\<exists>l a. (l = Warn \<or> l = Error) \<and> checkAllPermissions p =
     (map (\<lambda>perm. Native (Check perm)) (attempted_checks p) @
        (if \<forall>perm \<in> set ALL_PERMISSIONS. pa_check p perm = Resolved (Resolved True) then []
         else [Console l a]),
      Resolved (\<forall>perm \<in> set ALL_PERMISSIONS. pa_check p perm = Resolved (Resolved True)))"
proof (cases "pa_check p BLUETOOTH_SCAN")
  case (Rejected e)
  then show ?thesis
    by (simp add: checkAllPermissions_def ALL_PERMISSIONS_def attempted_checks_def flow_defs
          is_rejected_def)
next
  case scan: (Resolved r1)
  show ?thesis
  proof (cases "pa_check p BLUETOOTH_CONNECT")
    case (Rejected e)
    with scan show ?thesis
      by (simp add: checkAllPermissions_def ALL_PERMISSIONS_def attempted_checks_def flow_defs
            is_rejected_def)
  next
    case connect: (Resolved r2)
    show ?thesis
    proof (cases "pa_check p ACCESS_FINE_LOCATION")
      case (Rejected e)
      with scan connect show ?thesis
        by (simp add: checkAllPermissions_def ALL_PERMISSIONS_def attempted_checks_def flow_defs
              is_rejected_def)
    next
      case location: (Resolved r3)
      have attempted: "attempted_checks p = ALL_PERMISSIONS"
        using scan connect location
        by (simp add: attempted_checks_def ALL_PERMISSIONS_def is_rejected_def)
      show ?thesis
      proof (cases "\<exists>r \<in> set [r1, r2, r3]. is_rejected r")
        case True
        then obtain e where "Promise_all (pa_check_order p) [r1, r2, r3] = ([], Rejected e)"
          using Promise_all_rejected by blast
        moreover have "r1 \<noteq> Resolved True \<or> r2 \<noteq> Resolved True \<or> r3 \<noteq> Resolved True"
          using True by (auto simp: is_rejected_def)
        ultimately show ?thesis
          using scan connect location attempted
          by (auto simp: checkAllPermissions_def ALL_PERMISSIONS_def flow_defs)
      next
        case False
        then obtain b1 b2 b3 where
          bs: "r1 = Resolved b1" "r2 = Resolved b2" "r3 = Resolved b3"
          by (cases r1; cases r2; cases r3) (auto simp: is_rejected_def)
        have "Promise_all (pa_check_order p) [r1, r2, r3] = ([], Resolved [b1, b2, b3])"
          using Promise_all_resolved [of "[r1, r2, r3]" "pa_check_order p"] False bs
          by simp
        then show ?thesis
          using scan connect location attempted bs
          by (cases b1; cases b2; cases b3)
             (auto simp: checkAllPermissions_def ALL_PERMISSIONS_def flow_defs Let_def)
      qed
    qed
  qed
qed

lemma checkAll_result:
  "snd (checkAllPermissions p) =
     Resolved (\<forall>perm \<in> set ALL_PERMISSIONS. pa_check p perm = Resolved (Resolved True))"
  using checkAll_shape [of p] by auto

lemma checkAll_calls:
  "filter is_native (fst (checkAllPermissions p)) =
     map (\<lambda>perm. Native (Check perm)) (attempted_checks p)"
proof -
  have "filter is_native (map (\<lambda>perm. Native (Check perm)) ps) =
          map (\<lambda>perm. Native (Check perm)) ps" for ps
    by (induction ps) simp_all
  then show ?thesis
    using checkAll_shape [of p] by auto
qed

lemma checkAll_toasts: "toasts (fst (checkAllPermissions p)) = []"
proof -
  have "filter is_toast (map (\<lambda>perm. Native (Check perm)) ps) = []" for ps
    by (induction ps) simp_all
  then show ?thesis
    using checkAll_shape [of p] by (auto simp: toasts_def)
qed

lemma isBluetoothEnabled_cases:
  "isBluetoothEnabled p =
     (case rn_isBluetoothEnabled p of
        Resolved b \<Rightarrow> ([Native IsBluetoothEnabled], Resolved b)
      | Rejected e \<Rightarrow>
          ([Native IsBluetoothEnabled, Console Error [e]],
           Rejected (JError ''Failed to check if Bluetooth is enabled'')))"
  by (simp add: isBluetoothEnabled_def flow_defs split: settled.splits)

lemma enableBluetooth_cases:
  "enableBluetooth p =
     (case rn_requestBluetoothEnabled p of
        Resolved b \<Rightarrow> ([Native RequestBluetoothEnabled], Resolved JUndefined)
      | Rejected e \<Rightarrow>
          ([Native RequestBluetoothEnabled, Console Error [JStr ''Error enabling Bluetooth'', e]],
           Rejected (JError ''Failed to enable Bluetooth'')))"
  by (simp add: enableBluetooth_def flow_defs split: settled.splits)

lemma startDiscovery_unchecked:
  assumes "rn_isBluetoothEnabled p = Rejected e"
  shows "startDiscovery p =
           ([Native IsBluetoothEnabled, Console Error [e]],
            Rejected (JError ''Failed to check if Bluetooth is enabled''))"
  using assms by (simp add: startDiscovery_def isBluetoothEnabled_cases await_def)

lemma startDiscovery_disabled:
  assumes "rn_isBluetoothEnabled p = Resolved False"
  shows "startDiscovery p =
           (Native IsBluetoothEnabled # fst (checkAllPermissions p) @ fst (enableBluetooth p),
            snd (enableBluetooth p))"
proof -
  obtain t where c: "checkAllPermissions p = (t, Resolved (\<forall>perm \<in> set ALL_PERMISSIONS. pa_check p perm = Resolved (Resolved True)))"
    using checkAll_shape [of p] by blast
  show ?thesis
    using assms
    by (simp add: startDiscovery_def isBluetoothEnabled_cases c await_def ret_def
          split: prod.splits settled.splits)
qed

lemma startDiscovery_denied:
  assumes "rn_isBluetoothEnabled p = Resolved True"
    and "snd (checkAllPermissions p) = Resolved False"
  shows "startDiscovery p =
           (Native IsBluetoothEnabled # fst (checkAllPermissions p), Resolved (JBool False))"
proof -
  obtain t where c: "checkAllPermissions p = (t, Resolved False)"
    using assms(2) by (cases "checkAllPermissions p") simp
  show ?thesis
    using assms(1) by (simp add: startDiscovery_def isBluetoothEnabled_cases c await_def ret_def)
qed

lemma startDiscovery_discovering:
  assumes "rn_isBluetoothEnabled p = Resolved True"
    and "snd (checkAllPermissions p) = Resolved True"
  shows "startDiscovery p =
           (Native IsBluetoothEnabled # fst (checkAllPermissions p) @
              Native StartDiscovery #
              (case rn_startDiscovery p of Resolved ds \<Rightarrow> [] | Rejected e \<Rightarrow> [Console Error [e]]) @
              Native CancelDiscovery #
              (case rn_cancelDiscovery p of
                 Resolved c \<Rightarrow> [Console Log [JStr ''Discovery stopped'']]
               | Rejected e \<Rightarrow> []),
            case rn_cancelDiscovery p of
              Rejected e \<Rightarrow> Rejected e
            | Resolved c \<Rightarrow>
                (case rn_startDiscovery p of
                   Resolved ds \<Rightarrow> Resolved (JDevices ds)
                 | Rejected e \<Rightarrow> Resolved e))"
proof -
  obtain t where c: "checkAllPermissions p = (t, Resolved True)"
    using assms(2) by (cases "checkAllPermissions p") simp
  show ?thesis
    using assms(1)
    by (simp add: startDiscovery_def isBluetoothEnabled_cases c flow_defs
          split: settled.splits)
qed


lemma calls_Nil [simp]: "calls c [] = 0"
  by (simp add: calls_def)

lemma calls_Cons [simp]: "calls c (e # t) = (if e = Native c then 1 else 0) + calls c t"
  by (simp add: calls_def)

lemma calls_append [simp]: "calls c (t @ t') = calls c t + calls c t'"
  by (simp add: calls_def)

lemma calls_zero_iff: "calls c t = 0 \<longleftrightarrow> Native c \<notin> set t"
  by (induction t) auto

lemma checkAll_only_checks:
  assumes "\<And>perm. c \<noteq> Check perm"
  shows "calls c (fst (checkAllPermissions p)) = 0"
proof -
  have "Native c \<notin> set (filter is_native (fst (checkAllPermissions p)))"
    unfolding checkAll_calls using assms by auto
  then have "Native c \<notin> set (fst (checkAllPermissions p))"
    by simp
  then show ?thesis
    by (simp add: calls_zero_iff)
qed

section \<open>The permission functions\<close>

text \<open>
  Claim C1. Whatever the platform answers for the three permissions of
  \<open>ALL_PERMISSIONS\<close>, \<open>requestAllPermissions\<close> and \<open>checkAllPermissions\<close> always
  resolve, never reject: to \<open>True\<close> exactly when every permission of the set is granted,
  and to \<open>False\<close> on any denial and on any failure of the platform call.
\<close>

theorem permissions_true_iff_all_granted:
  "snd (requestAllPermissions p) =
     Resolved (case pa_requestMultiple p ALL_PERMISSIONS of
                 Resolved granted \<Rightarrow> (\<forall>perm \<in> set ALL_PERMISSIONS. granted perm = Some GRANTED)
               | Rejected e \<Rightarrow> False)
   \<and> snd (checkAllPermissions p) =
       Resolved (\<forall>perm \<in> set ALL_PERMISSIONS. pa_check p perm = Resolved (Resolved True))"
  using requestAll_result [of p] checkAll_result [of p] by (rule conjI)

theorem permissions_true_iff_all_granted_witness:
  "snd (requestAllPermissions working_platform) = Resolved True
   \<and> snd (checkAllPermissions working_platform) = Resolved True
   \<and> snd (checkAllPermissions disabled_platform) = Resolved False"
  using permissions_true_iff_all_granted [of working_platform]
    permissions_true_iff_all_granted [of disabled_platform]
  by (simp add: working_platform_def disabled_platform_def ALL_PERMISSIONS_def)

section \<open>Discovery\<close>

text \<open>
  Claim C2. The discovery call of the binding is made exactly when Bluetooth is enabled
  and every permission is granted; in every such run \<open>cancelDiscovery\<close> is called exactly
  once, after the discovery call, whether the discovery resolved with devices or threw
  (in which case the error value is returned).
\<close>

theorem startDiscovery_cancels_exactly_once:
  "(Native StartDiscovery \<in> set (fst (startDiscovery p)) \<longleftrightarrow>
      rn_isBluetoothEnabled p = Resolved True
      \<and> (\<forall>perm \<in> set ALL_PERMISSIONS. pa_check p perm = Resolved (Resolved True)))
   \<and> (Native StartDiscovery \<in> set (fst (startDiscovery p)) \<longrightarrow>
        calls CancelDiscovery (fst (startDiscovery p)) = 1
        \<and> (\<exists>pre post. fst (startDiscovery p) = pre @ Native StartDiscovery # post
              \<and> calls CancelDiscovery pre = 0 \<and> calls CancelDiscovery post = 1))"
proof -
  let ?granted = "\<forall>perm \<in> set ALL_PERMISSIONS. pa_check p perm = Resolved (Resolved True)"
  have no_start: "Native StartDiscovery \<notin> set (fst (checkAllPermissions p))"
    using checkAll_only_checks [of StartDiscovery p] by (simp add: calls_zero_iff)
  have no_cancel: "calls CancelDiscovery (fst (checkAllPermissions p)) = 0"
    by (rule checkAll_only_checks) simp
  show ?thesis
  proof (cases "rn_isBluetoothEnabled p")
    case (Rejected e)
    then show ?thesis
      by (simp add: startDiscovery_unchecked)
  next
    case (Resolved b)
    show ?thesis
    proof (cases b)
      case False
      with Resolved have "rn_isBluetoothEnabled p = Resolved False" by simp
      then show ?thesis
        using no_start
        by (simp add: startDiscovery_disabled enableBluetooth_cases split: settled.splits)
    next
      case True
      with Resolved have on: "rn_isBluetoothEnabled p = Resolved True" by simp
      show ?thesis
      proof (cases ?granted)
        case False
        then have "snd (checkAllPermissions p) = Resolved False"
          by (simp add: checkAll_result)
        with on False no_start show ?thesis
          by (simp add: startDiscovery_denied)
      next
        case True
        then have g: "snd (checkAllPermissions p) = Resolved True"
          by (simp add: checkAll_result)
        let ?pre = "Native IsBluetoothEnabled # fst (checkAllPermissions p)"
        let ?post = "(case rn_startDiscovery p of Resolved ds \<Rightarrow> [] | Rejected e \<Rightarrow> [Console Error [e]]) @
              Native CancelDiscovery #
              (case rn_cancelDiscovery p of
                 Resolved c \<Rightarrow> [Console Log [JStr ''Discovery stopped'']]
               | Rejected e \<Rightarrow> [])"
        have tr: "fst (startDiscovery p) = ?pre @ Native StartDiscovery # ?post"
          by (simp add: startDiscovery_discovering [OF on g])
        have pre: "calls CancelDiscovery ?pre = 0"
          using no_cancel by simp
        have post: "calls CancelDiscovery ?post = 1"
          by (simp split: settled.splits)
        have once: "calls CancelDiscovery (fst (startDiscovery p)) = 1"
          unfolding tr using pre post by simp
        have "\<exists>pre post. fst (startDiscovery p) = pre @ Native StartDiscovery # post
              \<and> calls CancelDiscovery pre = 0 \<and> calls CancelDiscovery post = 1"
          using tr pre post by blast
        with once on True tr show ?thesis
          by simp
      qed
    qed
  qed
qed

theorem startDiscovery_cancels_exactly_once_witness:
  "rn_startDiscovery failing_discovery_platform = Rejected (JError ''scan failed'')
   \<and> Native StartDiscovery \<in> set (fst (startDiscovery failing_discovery_platform))
   \<and> calls CancelDiscovery (fst (startDiscovery failing_discovery_platform)) = 1"
  using startDiscovery_cancels_exactly_once [of failing_discovery_platform]
  by (simp add: failing_discovery_platform_def working_platform_def ALL_PERMISSIONS_def)

text \<open>
  Claim C3. When the binding reports Bluetooth as disabled, \<open>startDiscovery\<close> never calls
  the discovery of the binding. After the two checks it makes the enable attempt, one call
  of \<^verbatim>\<open>requestBluetoothEnabled\<close> through \<open>enableBluetooth\<close>, and settles exactly as
  that attempt does: it resolves to what \<open>enableBluetooth\<close> resolves to
  (\<^verbatim>\<open>undefined\<close>), and rejects with the error \<open>enableBluetooth\<close> throws.
\<close>

theorem startDiscovery_disabled_returns_enable_outcome:
  assumes "rn_isBluetoothEnabled p = Resolved False"
  shows "Native StartDiscovery \<notin> set (fst (startDiscovery p))
         \<and> calls RequestBluetoothEnabled (fst (startDiscovery p)) = 1
         \<and> filter is_native (fst (startDiscovery p)) =
             Native IsBluetoothEnabled # map (\<lambda>perm. Native (Check perm)) (attempted_checks p) @
               [Native RequestBluetoothEnabled]
         \<and> snd (startDiscovery p) =
             (case rn_requestBluetoothEnabled p of
                Resolved enabled \<Rightarrow> Resolved JUndefined
              | Rejected e \<Rightarrow> Rejected (JError ''Failed to enable Bluetooth''))
         \<and> fst (startDiscovery p) =
             fst (isBluetoothEnabled p) @ fst (checkAllPermissions p) @ fst (enableBluetooth p)
         \<and> snd (startDiscovery p) = snd (enableBluetooth p)"
proof -
  have no_start: "Native StartDiscovery \<notin> set (fst (checkAllPermissions p))"
    using checkAll_only_checks [of StartDiscovery p] by (simp add: calls_zero_iff)
  have no_enable: "calls RequestBluetoothEnabled (fst (checkAllPermissions p)) = 0"
    by (rule checkAll_only_checks) simp
  have enable_trace:
    "Native StartDiscovery \<notin> set (fst (enableBluetooth p))"
    "calls RequestBluetoothEnabled (fst (enableBluetooth p)) = 1"
    "filter is_native (fst (enableBluetooth p)) = [Native RequestBluetoothEnabled]"
    by (simp_all add: enableBluetooth_cases split: settled.splits)
  have enable_value:
    "snd (enableBluetooth p) =
       (case rn_requestBluetoothEnabled p of
          Resolved enabled \<Rightarrow> Resolved JUndefined
        | Rejected e \<Rightarrow> Rejected (JError ''Failed to enable Bluetooth''))"
    by (simp add: enableBluetooth_cases split: settled.splits)
  have whole: "startDiscovery p =
      (Native IsBluetoothEnabled # fst (checkAllPermissions p) @ fst (enableBluetooth p),
       snd (enableBluetooth p))"
    using assms by (rule startDiscovery_disabled)
  have "Native StartDiscovery \<notin> set (fst (startDiscovery p))"
    using no_start enable_trace(1) by (simp add: whole)
  moreover have "calls RequestBluetoothEnabled (fst (startDiscovery p)) = 1"
    using no_enable enable_trace(2) by (simp add: whole)
  moreover have "filter is_native (fst (startDiscovery p)) =
      Native IsBluetoothEnabled # map (\<lambda>perm. Native (Check perm)) (attempted_checks p) @
        [Native RequestBluetoothEnabled]"
    using enable_trace(3) by (simp add: whole checkAll_calls)
  moreover have "fst (startDiscovery p) =
      fst (isBluetoothEnabled p) @ fst (checkAllPermissions p) @ fst (enableBluetooth p)"
    using assms by (simp add: whole isBluetoothEnabled_cases)
  moreover have "snd (startDiscovery p) = snd (enableBluetooth p)"
    by (simp add: whole)
  ultimately show ?thesis
    using enable_value by simp
qed

theorem startDiscovery_disabled_returns_enable_outcome_witness:
  "rn_isBluetoothEnabled disabled_platform = Resolved False
   \<and> Native StartDiscovery \<notin> set (fst (startDiscovery disabled_platform))
   \<and> calls RequestBluetoothEnabled (fst (startDiscovery disabled_platform)) = 1
   \<and> snd (startDiscovery disabled_platform) = Resolved JUndefined
   \<and> snd (startDiscovery
             (disabled_platform \<lparr> rn_requestBluetoothEnabled := Rejected (JError ''refused'') \<rparr>))
       = Rejected (JError ''Failed to enable Bluetooth'')"
proof -
  have off: "rn_isBluetoothEnabled disabled_platform = Resolved False"
    by (simp add: disabled_platform_def)
  have off': "rn_isBluetoothEnabled
      (disabled_platform \<lparr> rn_requestBluetoothEnabled := Rejected (JError ''refused'') \<rparr>)
        = Resolved False"
    by (simp add: disabled_platform_def)
  note accepted = startDiscovery_disabled_returns_enable_outcome [OF off]
  note refused = startDiscovery_disabled_returns_enable_outcome [OF off']
  have "rn_requestBluetoothEnabled disabled_platform = Resolved True"
    by (simp add: disabled_platform_def working_platform_def)
  moreover from accepted have "snd (startDiscovery disabled_platform) =
      (case rn_requestBluetoothEnabled disabled_platform of
         Resolved enabled \<Rightarrow> Resolved JUndefined
       | Rejected e \<Rightarrow> Rejected (JError ''Failed to enable Bluetooth''))"
    by blast
  ultimately have "snd (startDiscovery disabled_platform) = Resolved JUndefined"
    by simp
  moreover from refused have "snd (startDiscovery
      (disabled_platform \<lparr> rn_requestBluetoothEnabled := Rejected (JError ''refused'') \<rparr>)) =
      (case rn_requestBluetoothEnabled
              (disabled_platform \<lparr> rn_requestBluetoothEnabled := Rejected (JError ''refused'') \<rparr>) of
         Resolved enabled \<Rightarrow> Resolved JUndefined
       | Rejected e \<Rightarrow> Rejected (JError ''Failed to enable Bluetooth''))"
    by blast
  then have "snd (startDiscovery
      (disabled_platform \<lparr> rn_requestBluetoothEnabled := Rejected (JError ''refused'') \<rparr>)) =
      Rejected (JError ''Failed to enable Bluetooth'')"
    by simp
  moreover from accepted have
    "Native StartDiscovery \<notin> set (fst (startDiscovery disabled_platform))"
    "calls RequestBluetoothEnabled (fst (startDiscovery disabled_platform)) = 1"
    by blast+
  ultimately show ?thesis
    using off by blast
qed

text \<open>
  Claim C4. The claim is that \<open>enableBluetooth\<close> resolves to the result of the binding's
  \<^verbatim>\<open>requestBluetoothEnabled\<close>. On a platform where the binding resolves to
  \<^verbatim>\<open>true\<close>, the function resolves to \<^verbatim>\<open>undefined\<close>: the awaited value
  is not returned.
\<close>

theorem enableBluetooth_drops_binding_result:
  "rn_requestBluetoothEnabled working_platform = Resolved True
   \<and> enableBluetooth working_platform = ([Native RequestBluetoothEnabled], Resolved JUndefined)"
  by (simp add: enableBluetooth_def flow_defs working_platform_def)


section \<open>Connecting and pairing\<close>

text \<open>
  Claim C5. For every device id, the empty string included, \<open>connectDevice\<close> never
  rejects: it resolves to the device the binding connected, and to \<^verbatim>\<open>false\<close> when
  the binding rejects or resolves to a falsy value.
\<close>

theorem connectDevice_never_rejects:
  "snd (connectDevice p deviceId) =
     (case rn_connectToDevice p deviceId of
        Resolved (Some dev) \<Rightarrow> Resolved (JDevice dev)
      | Resolved None \<Rightarrow> Resolved (JBool False)
      | Rejected e \<Rightarrow> Resolved (JBool False))
   \<and> \<not> is_rejected (snd (connectDevice p deviceId))"
  by (simp add: connectDevice_def flow_defs is_rejected_def split: settled.splits option.splits)

theorem connectDevice_never_rejects_witness:
  "snd (connectDevice working_platform []) = Resolved (JDevice (BluetoothDevice []))
   \<and> snd (connectDevice broken_platform []) = Resolved (JBool False)
   \<and> snd (connectDevice (working_platform \<lparr> rn_connectToDevice := (\<lambda>deviceId. Resolved None) \<rparr>) ''AA:BB'')
       = Resolved (JBool False)"
  using connectDevice_never_rejects [of working_platform "[]"]
    connectDevice_never_rejects [of broken_platform "[]"]
    connectDevice_never_rejects
      [of "working_platform \<lparr> rn_connectToDevice := (\<lambda>deviceId. Resolved None) \<rparr>" "''AA:BB''"]
  by (simp add: working_platform_def broken_platform_def)

text \<open>
  Claim C6. \<open>disconnectDevice\<close>, \<open>pairDevice\<close> and \<open>unPairDevice\<close> resolve to the
  truthy value of the binding or reject: a falsy value of the binding becomes a rejection
  with the function's own error, and a rejection of the binding is thrown again.
\<close>

theorem disconnect_pair_unpair_resolve_or_reject:
  "snd (disconnectDevice p deviceId) =
     (case rn_disconnectFromDevice p deviceId of
        Resolved disconnected \<Rightarrow>
          if disconnected then Resolved True
          else Rejected (JError (''Failed to disconnect from device: '' @ deviceId))
      | Rejected e \<Rightarrow> Rejected e)
   \<and> snd (pairDevice p deviceId) =
     (case rn_pairDevice p deviceId of
        Resolved (Some dev) \<Rightarrow> Resolved dev
      | Resolved None \<Rightarrow> Rejected (JError (''Failed to pair with device: '' @ deviceId))
      | Rejected e \<Rightarrow> Rejected e)
   \<and> snd (unPairDevice p deviceId) =
     (case rn_unpairDevice p deviceId of
        Resolved unpaired \<Rightarrow>
          if unpaired then Resolved True
          else Rejected (JError (''Failed to unpair with device: '' @ deviceId))
      | Rejected e \<Rightarrow> Rejected e)"
proof (intro conjI)
  show "snd (disconnectDevice p deviceId) =
     (case rn_disconnectFromDevice p deviceId of
        Resolved disconnected \<Rightarrow>
          if disconnected then Resolved True
          else Rejected (JError (''Failed to disconnect from device: '' @ deviceId))
      | Rejected e \<Rightarrow> Rejected e)"
    by (simp add: disconnectDevice_def flow_defs split: settled.splits)
  show "snd (pairDevice p deviceId) =
     (case rn_pairDevice p deviceId of
        Resolved (Some dev) \<Rightarrow> Resolved dev
      | Resolved None \<Rightarrow> Rejected (JError (''Failed to pair with device: '' @ deviceId))
      | Rejected e \<Rightarrow> Rejected e)"
    by (simp add: pairDevice_def flow_defs split: settled.splits option.splits)
  show "snd (unPairDevice p deviceId) =
     (case rn_unpairDevice p deviceId of
        Resolved unpaired \<Rightarrow>
          if unpaired then Resolved True
          else Rejected (JError (''Failed to unpair with device: '' @ deviceId))
      | Rejected e \<Rightarrow> Rejected e)"
    by (simp add: unPairDevice_def flow_defs split: settled.splits)
qed

theorem disconnect_pair_unpair_resolve_or_reject_witness:
  "snd (disconnectDevice
          (working_platform \<lparr> rn_disconnectFromDevice := (\<lambda>deviceId. Resolved False) \<rparr>) ''AA:BB'')
     = Rejected (JError ''Failed to disconnect from device: AA:BB'')
   \<and> snd (pairDevice (working_platform \<lparr> rn_pairDevice := (\<lambda>deviceId. Resolved None) \<rparr>) ''AA:BB'')
     = Rejected (JError ''Failed to pair with device: AA:BB'')
   \<and> snd (unPairDevice working_platform ''AA:BB'') = Resolved True"
  using disconnect_pair_unpair_resolve_or_reject
      [of "working_platform \<lparr> rn_disconnectFromDevice := (\<lambda>deviceId. Resolved False) \<rparr>" "''AA:BB''"]
    disconnect_pair_unpair_resolve_or_reject
      [of "working_platform \<lparr> rn_pairDevice := (\<lambda>deviceId. Resolved None) \<rparr>" "''AA:BB''"]
    disconnect_pair_unpair_resolve_or_reject [of working_platform "''AA:BB''"]
  by (simp add: working_platform_def)

section \<open>Subscriptions\<close>

lemma forEach_remove:
  "forEach remove_subscription subs =
     (map (\<lambda>s. Native (Remove (sub_id s)))
        (takeWhile (\<lambda>s. \<not> is_rejected (remove_outcome s)) subs @
         take 1 (dropWhile (\<lambda>s. \<not> is_rejected (remove_outcome s)) subs)),
      case dropWhile (\<lambda>s. \<not> is_rejected (remove_outcome s)) subs of
        [] \<Rightarrow> Resolved ()
      | s # rest \<Rightarrow> remove_outcome s)"
proof (induction subs)
  case Nil
  show ?case by (simp add: ret_def)
next
  case (Cons s subs)
  show ?case
  proof (cases "remove_outcome s")
    case (Resolved u)
    with Cons show ?thesis
      by (simp add: remove_subscription_def await_def native_def is_rejected_def)
  next
    case (Rejected e)
    then show ?thesis
      by (simp add: remove_subscription_def await_def native_def is_rejected_def)
  qed
qed

text \<open>
  Claim C7, amended. \<open>cleanupSubscriptions\<close> calls \<^verbatim>\<open>remove\<close> once on each
  subscription, in list order, up to and including the first one whose \<^verbatim>\<open>remove\<close>
  throws; that exception ends the iteration and is thrown to the caller. When no
  \<^verbatim>\<open>remove\<close> throws, every subscription of the list is released exactly once, in
  list order.
\<close>

theorem cleanupSubscriptions_stops_at_first_throw:
  "cleanupSubscriptions subs =
     (map (\<lambda>s. Native (Remove (sub_id s)))
        (takeWhile (\<lambda>s. \<not> is_rejected (remove_outcome s)) subs @
         take 1 (dropWhile (\<lambda>s. \<not> is_rejected (remove_outcome s)) subs)),
      case dropWhile (\<lambda>s. \<not> is_rejected (remove_outcome s)) subs of
        [] \<Rightarrow> Resolved ()
      | s # rest \<Rightarrow> remove_outcome s)
   \<and> ((\<forall>s \<in> set subs. \<not> is_rejected (remove_outcome s)) \<longrightarrow>
        cleanupSubscriptions subs = (map (\<lambda>s. Native (Remove (sub_id s))) subs, Resolved ()))"
proof -
  have general: "cleanupSubscriptions subs =
     (map (\<lambda>s. Native (Remove (sub_id s)))
        (takeWhile (\<lambda>s. \<not> is_rejected (remove_outcome s)) subs @
         take 1 (dropWhile (\<lambda>s. \<not> is_rejected (remove_outcome s)) subs)),
      case dropWhile (\<lambda>s. \<not> is_rejected (remove_outcome s)) subs of
        [] \<Rightarrow> Resolved ()
      | s # rest \<Rightarrow> remove_outcome s)"
    unfolding cleanupSubscriptions_def by (rule forEach_remove)
  have "cleanupSubscriptions subs = (map (\<lambda>s. Native (Remove (sub_id s))) subs, Resolved ())"
    if "\<forall>s \<in> set subs. \<not> is_rejected (remove_outcome s)"
  proof -
    from that have "takeWhile (\<lambda>s. \<not> is_rejected (remove_outcome s)) subs = subs"
      and "dropWhile (\<lambda>s. \<not> is_rejected (remove_outcome s)) subs = []"
      by simp_all
    with general show ?thesis by simp
  qed
  with general show ?thesis by blast
qed

theorem cleanupSubscriptions_stops_at_first_throw_witness:
  "cleanupSubscriptions [Subscription 1 (Resolved ()), Subscription 2 (Resolved ())] =
     ([Native (Remove 1), Native (Remove 2)], Resolved ())
   \<and> cleanupSubscriptions
       [Subscription 1 (Resolved ()), Subscription 2 (Rejected (JError ''gone'')),
        Subscription 3 (Resolved ())] =
     ([Native (Remove 1), Native (Remove 2)], Rejected (JError ''gone''))"
  using cleanupSubscriptions_stops_at_first_throw
      [of "[Subscription 1 (Resolved ()), Subscription 2 (Resolved ())]"]
    cleanupSubscriptions_stops_at_first_throw
      [of "[Subscription 1 (Resolved ()), Subscription 2 (Rejected (JError ''gone'')),
            Subscription 3 (Resolved ())]"]
  by (simp add: is_rejected_def)

text \<open>
  The claim as stated fails on a list of two subscriptions of which the first throws:
  the second is never released.
\<close>

theorem cleanupSubscriptions_abort_counterexample:
  "cleanupSubscriptions
     [Subscription 1 (Rejected (JError ''gone'')), Subscription 2 (Resolved ())] =
     ([Native (Remove 1)], Rejected (JError ''gone''))
   \<and> calls (Remove 2)
       (fst (cleanupSubscriptions
          [Subscription 1 (Rejected (JError ''gone'')), Subscription 2 (Resolved ())])) = 0"
  by (simp add: cleanupSubscriptions_def remove_subscription_def flow_defs)

section \<open>Device input and output\<close>

text \<open>
  Claim C8, amended. With a null device, \<open>read\<close>, \<open>write\<close>, \<open>available\<close> and \<open>clear\<close>
  call no binding method and reject, each with its own general error
  (\<^verbatim>\<open>Failed to read data from device\<close> and so on); the error
  \<^verbatim>\<open>No device connected.\<close> is only written to the console. The rejection is the
  same as the one after a failure of the device's own method.
\<close>

theorem null_device_rejects_with_generic_error:
  "read p None =
     ([Console Error [JStr ''Error reading data from device:'', JError ''No device connected.'']],
      Rejected (JError ''Failed to read data from device''))
   \<and> write p None data =
     ([Console Error
         [JStr (''Error writing data to device: '' @ data), JError ''No device connected.'']],
      Rejected (JError ''Failed to write data to device''))
   \<and> available p None =
     ([Console Error [JStr ''Error checking available bytes:'', JError ''No device connected.'']],
      Rejected (JError ''Failed to check available bytes''))
   \<and> clear p None =
     ([Console Error [JStr ''Error clearing buffer:'', JError ''No device connected.'']],
      Rejected (JError ''Failed to clear buffer''))
   \<and> filter is_native
        (fst (read p None) @ fst (write p None data) @ fst (available p None) @ fst (clear p None))
       = []
   \<and> (\<forall>dev e. dev_read p dev = Rejected e \<longrightarrow>
         snd (read p (Some dev)) = snd (read p None))
   \<and> (\<forall>dev e. dev_write p dev data = Rejected e \<longrightarrow>
         snd (write p (Some dev) data) = snd (write p None data))
   \<and> (\<forall>dev e. dev_available p dev = Rejected e \<longrightarrow>
         snd (available p (Some dev)) = snd (available p None))
   \<and> (\<forall>dev e. dev_clear p dev = Rejected e \<longrightarrow>
         snd (clear p (Some dev)) = snd (clear p None))"
proof -
  have null_device:
    "read p None =
       ([Console Error [JStr ''Error reading data from device:'', JError ''No device connected.'']],
        Rejected (JError ''Failed to read data from device''))"
    "write p None data =
       ([Console Error
           [JStr (''Error writing data to device: '' @ data), JError ''No device connected.'']],
        Rejected (JError ''Failed to write data to device''))"
    "available p None =
       ([Console Error [JStr ''Error checking available bytes:'', JError ''No device connected.'']],
        Rejected (JError ''Failed to check available bytes''))"
    "clear p None =
       ([Console Error [JStr ''Error clearing buffer:'', JError ''No device connected.'']],
        Rejected (JError ''Failed to clear buffer''))"
    by (simp_all add: read_def write_def available_def clear_def flow_defs)
  have binding_failure:
    "dev_read p dev = Rejected e \<Longrightarrow> snd (read p (Some dev)) = snd (read p None)"
    "dev_write p dev data = Rejected e \<Longrightarrow>
       snd (write p (Some dev) data) = snd (write p None data)"
    "dev_available p dev = Rejected e \<Longrightarrow> snd (available p (Some dev)) = snd (available p None)"
    "dev_clear p dev = Rejected e \<Longrightarrow> snd (clear p (Some dev)) = snd (clear p None)"
    for dev e
    by (simp_all add: read_def write_def available_def clear_def flow_defs)
  show ?thesis
    using binding_failure by (simp add: null_device)
qed

theorem null_device_rejects_with_generic_error_witness:
  "dev_write broken_platform (BluetoothDevice ''AA:BB'') ''ping'' = Rejected (JError ''native'')
   \<and> snd (read broken_platform (Some (BluetoothDevice ''AA:BB''))) =
       Rejected (JError ''Failed to read data from device'')
   \<and> snd (write broken_platform (Some (BluetoothDevice ''AA:BB'')) ''ping'') =
       Rejected (JError ''Failed to write data to device'')
   \<and> snd (available broken_platform (Some (BluetoothDevice ''AA:BB''))) =
       Rejected (JError ''Failed to check available bytes'')
   \<and> snd (clear broken_platform (Some (BluetoothDevice ''AA:BB''))) =
       Rejected (JError ''Failed to clear buffer'')"
  using null_device_rejects_with_generic_error [of broken_platform "''ping''"]
  by (simp add: broken_platform_def working_platform_def)

text \<open>
  The rejection of \<open>read\<close> on a null device is not the \<^verbatim>\<open>No device connected.\<close>
  error: it is the same value as the rejection after a failed read on a connected device.
\<close>

theorem null_device_error_class_counterexample:
  "snd (read working_platform None) \<noteq> Rejected (JError ''No device connected.'')
   \<and> snd (read working_platform None) = Rejected (JError ''Failed to read data from device'')
   \<and> snd (read working_platform None) = snd (read broken_platform (Some (BluetoothDevice ''AA:BB'')))"
  by (simp add: read_def flow_defs working_platform_def broken_platform_def)


section \<open>Toasts\<close>

lemma toasts_Nil [simp]: "toasts [] = []"
  by (simp add: toasts_def)

lemma toasts_Cons [simp]: "toasts (e # t) = (if is_toast e then e # toasts t else toasts t)"
  by (simp add: toasts_def)

lemma toasts_append [simp]: "toasts (t @ t') = toasts t @ toasts t'"
  by (simp add: toasts_def)

lemma requestAll_toasts: "toasts (fst (requestAllPermissions p)) = []"
  by (simp add: requestAllPermissions_def flow_defs Let_def split: settled.splits)

lemma requestLocation_toasts: "toasts (fst (requestLocationService p)) = []"
  by (simp add: requestLocationService_def split: geo_behaviour.splits)

lemma startDiscovery_toasts: "toasts (fst (startDiscovery p)) = []"
proof (cases "rn_isBluetoothEnabled p")
  case (Rejected e)
  then show ?thesis by (simp add: startDiscovery_unchecked)
next
  case (Resolved b)
  show ?thesis
  proof (cases b)
    case False
    with Resolved have "rn_isBluetoothEnabled p = Resolved False" by simp
    then show ?thesis
      by (simp add: startDiscovery_disabled checkAll_toasts enableBluetooth_cases
            split: settled.splits)
  next
    case True
    with Resolved have on: "rn_isBluetoothEnabled p = Resolved True" by simp
    show ?thesis
    proof (cases "\<forall>perm \<in> set ALL_PERMISSIONS. pa_check p perm = Resolved (Resolved True)")
      case False
      then have "snd (checkAllPermissions p) = Resolved False"
        by (simp add: checkAll_result)
      with on show ?thesis
        by (simp add: startDiscovery_denied checkAll_toasts)
    next
      case True
      then have "snd (checkAllPermissions p) = Resolved True"
        by (simp add: checkAll_result)
      with on show ?thesis
        by (simp add: startDiscovery_discovering checkAll_toasts split: settled.splits)
    qed
  qed
qed

lemma cleanup_toasts: "toasts (fst (cleanupSubscriptions subs)) = []"
  by (simp add: cleanupSubscriptions_def forEach_remove toasts_def filter_empty_conv)

lemma subscribe_toasts:
  "toasts (fst (onBluetoothEnabled p cb)) = []"
  "toasts (fst (onBluetoothDisabled p cb)) = []"
  "toasts (fst (onStateChanged p cb)) = []"
  "toasts (fst (onDeviceConnected p cb)) = []"
  "toasts (fst (onDeviceDisconnected p cb)) = []"
  by (simp_all add: onBluetoothEnabled_def onBluetoothDisabled_def onStateChanged_def
        onDeviceConnected_def onDeviceDisconnected_def flow_defs split: settled.splits)

lemma device_toasts:
  "toasts (fst (read p device)) = []"
  "toasts (fst (write p device data)) = []"
  "toasts (fst (available p device)) = []"
  "toasts (fst (clear p device)) = []"
  by (simp_all add: read_def write_def available_def clear_def flow_defs
        split: settled.splits option.splits)

lemma listing_toasts:
  "toasts (fst (getPairedDevices p)) = []"
  "toasts (fst (getConnectedDevice p)) = []"
  "toasts (fst (getBondedDevices p)) = []"
  by (simp_all add: getPairedDevices_def getConnectedDevice_def getBondedDevices_def flow_defs
        split: settled.splits)

lemma pairing_toasts:
  "toasts (fst (disconnectDevice p deviceId)) = []"
  "toasts (fst (pairDevice p deviceId)) = []"
  "toasts (fst (unPairDevice p deviceId)) = []"
  by (simp_all add: disconnectDevice_def pairDevice_def unPairDevice_def flow_defs
        split: settled.splits option.splits)

lemma enabling_toasts:
  "toasts (fst (isBluetoothEnabled p)) = []"
  "toasts (fst (enableBluetooth p)) = []"
  by (simp_all add: isBluetoothEnabled_cases enableBluetooth_cases split: settled.splits)

lemma stopDiscovery_toasts:
  "toasts (fst (stopDiscovery p)) =
     (if is_rejected (rn_cancelDiscovery p)
      then [Toast ''Error occurred while attempting to cancel discover devices'' BOTTOM]
      else [])"
  by (simp add: stopDiscovery_def flow_defs is_rejected_def split: settled.splits)

lemma connectDevice_toasts:
  "toasts (fst (connectDevice p deviceId)) =
     (if snd (connectDevice p deviceId) = Resolved (JBool False)
      then [Toast (''Error connecting to device: '' @ deviceId) BOTTOM]
      else [])"
  by (simp add: connectDevice_def flow_defs split: settled.splits option.splits)

lemma openBluetoothSettings_toasts:
  "toasts (fst (openBluetoothSettings p)) =
     (if is_rejected (rn_openBluetoothSettings p) then []
      else [Toast ''Bluetooth settings opened'' SHORT])"
  by (simp add: openBluetoothSettings_def flow_defs is_rejected_def split: settled.splits)

text \<open>
  Claim C9, amended. A call of an exported function shows a toast in exactly three cases:
  \<open>stopDiscovery\<close> when cancelling fails, \<open>connectDevice\<close> when connecting fails, and
  \<open>openBluetoothSettings\<close> when opening the settings succeeds. When opening the settings
  fails, the error is written to the console and a new error is thrown.
\<close>

theorem toast_exactly_for:
  "(toasts (emitted p op) \<noteq> [] \<longleftrightarrow>
     (op = Op_stopDiscovery \<and> is_rejected (rn_cancelDiscovery p))
     \<or> (\<exists>deviceId. op = Op_connectDevice deviceId
           \<and> snd (connectDevice p deviceId) = Resolved (JBool False))
     \<or> (op = Op_openBluetoothSettings \<and> \<not> is_rejected (rn_openBluetoothSettings p)))
   \<and> openBluetoothSettings p =
       (case rn_openBluetoothSettings p of
          Resolved u \<Rightarrow>
            ([Native OpenBluetoothSettings, Toast ''Bluetooth settings opened'' SHORT],
             Resolved ())
        | Rejected e \<Rightarrow>
            ([Native OpenBluetoothSettings,
              Console Error [JStr ''Error opening Bluetooth settings:'', e]],
             Rejected (JError ''Failed to open Bluetooth settings'')))"
proof (rule conjI)
  show "toasts (emitted p op) \<noteq> [] \<longleftrightarrow>
     (op = Op_stopDiscovery \<and> is_rejected (rn_cancelDiscovery p))
     \<or> (\<exists>deviceId. op = Op_connectDevice deviceId
           \<and> snd (connectDevice p deviceId) = Resolved (JBool False))
     \<or> (op = Op_openBluetoothSettings \<and> \<not> is_rejected (rn_openBluetoothSettings p))"
  proof (cases op)
    case Op_stopDiscovery
    then show ?thesis by (simp add: stopDiscovery_toasts)
  next
    case (Op_connectDevice deviceId)
    then show ?thesis by (simp add: connectDevice_toasts)
  next
    case Op_openBluetoothSettings
    then show ?thesis by (simp add: openBluetoothSettings_toasts)
  next
    case Op_startDiscovery
    then show ?thesis by (simp add: startDiscovery_toasts)
  next
    case Op_requestAllPermissions
    then show ?thesis by (simp add: requestAll_toasts)
  next
    case Op_checkAllPermissions
    then show ?thesis by (simp add: checkAll_toasts)
  next
    case Op_requestLocationService
    then show ?thesis by (simp add: requestLocation_toasts)
  next
    case (Op_cleanupSubscriptions subs)
    then show ?thesis by (simp add: cleanup_toasts)
  qed (simp_all add: enabling_toasts pairing_toasts listing_toasts subscribe_toasts device_toasts)
next
  show "openBluetoothSettings p =
       (case rn_openBluetoothSettings p of
          Resolved u \<Rightarrow>
            ([Native OpenBluetoothSettings, Toast ''Bluetooth settings opened'' SHORT],
             Resolved ())
        | Rejected e \<Rightarrow>
            ([Native OpenBluetoothSettings,
              Console Error [JStr ''Error opening Bluetooth settings:'', e]],
             Rejected (JError ''Failed to open Bluetooth settings'')))"
    by (simp add: openBluetoothSettings_def flow_defs split: settled.splits)
qed

theorem toast_exactly_for_witness:
  "toasts (emitted working_platform Op_openBluetoothSettings) \<noteq> []
   \<and> toasts (emitted broken_platform Op_stopDiscovery) \<noteq> []
   \<and> toasts (emitted working_platform Op_stopDiscovery) = []
   \<and> toasts (emitted broken_platform Op_startDiscovery) = []"
  using toast_exactly_for [of working_platform Op_openBluetoothSettings]
    toast_exactly_for [of broken_platform Op_stopDiscovery]
    toast_exactly_for [of working_platform Op_stopDiscovery]
    toast_exactly_for [of broken_platform Op_startDiscovery]
  by (simp add: working_platform_def broken_platform_def is_rejected_def)

text \<open>
  When opening the settings fails, the error is written to the console and a new error is
  thrown: no toast is shown.
\<close>

theorem settings_failure_toast_counterexample:
  "is_rejected (rn_openBluetoothSettings broken_platform)
   \<and> openBluetoothSettings broken_platform =
       ([Native OpenBluetoothSettings,
         Console Error [JStr ''Error opening Bluetooth settings:'', JError ''native'']],
        Rejected (JError ''Failed to open Bluetooth settings''))
   \<and> toasts (emitted broken_platform Op_openBluetoothSettings) = []"
  by (simp add: openBluetoothSettings_def flow_defs broken_platform_def working_platform_def
        is_rejected_def)

section \<open>The checks of \<open>startDiscovery\<close>\<close>

text \<open>
  Claim C10, amended. In every call of \<open>startDiscovery\<close> in which the enabled check
  resolves, the events of \<open>isBluetoothEnabled\<close> come first, then those of
  \<open>checkAllPermissions\<close>, and only then the calls of the chosen branch. In particular,
  with Bluetooth disabled the permission check still runs, with its report to the console
  when a permission is not granted, and the outcome does not depend on what the check
  answers. When the enabled check throws, \<open>startDiscovery\<close> rejects with the error of
  \<open>isBluetoothEnabled\<close> and the permission check does not run.
\<close>

theorem startDiscovery_checks_before_branch:
  "(\<forall>b. rn_isBluetoothEnabled p = Resolved b \<longrightarrow>
      (\<exists>branch. fst (startDiscovery p) =
          fst (isBluetoothEnabled p) @ fst (checkAllPermissions p) @ branch
        \<and> filter is_native branch =
            (if \<not> b then [Native RequestBluetoothEnabled]
             else if snd (checkAllPermissions p) = Resolved True
               then [Native StartDiscovery, Native CancelDiscovery]
             else []))
      \<and> filter is_native (fst (startDiscovery p)) =
          Native IsBluetoothEnabled # map (\<lambda>perm. Native (Check perm)) (attempted_checks p) @
            (if \<not> b then [Native RequestBluetoothEnabled]
             else if \<forall>perm \<in> set ALL_PERMISSIONS. pa_check p perm = Resolved (Resolved True)
               then [Native StartDiscovery, Native CancelDiscovery]
             else []))
   \<and> take 1 (attempted_checks p) = [BLUETOOTH_SCAN]
   \<and> ((\<forall>perm \<in> set ALL_PERMISSIONS. \<not> is_rejected (pa_check p perm)) \<longrightarrow>
        attempted_checks p = ALL_PERMISSIONS)
   \<and> (rn_isBluetoothEnabled p = Resolved False \<longrightarrow>
        (\<exists>l a. (l = Warn \<or> l = Error)
           \<and> fst (startDiscovery p) =
               Native IsBluetoothEnabled # map (\<lambda>perm. Native (Check perm)) (attempted_checks p) @
                 (if \<forall>perm \<in> set ALL_PERMISSIONS. pa_check p perm = Resolved (Resolved True)
                  then [] else [Console l a]) @
                 Native RequestBluetoothEnabled #
                 (case rn_requestBluetoothEnabled p of
                    Resolved enabled \<Rightarrow> []
                  | Rejected e \<Rightarrow> [Console Error [JStr ''Error enabling Bluetooth'', e]]))
        \<and> (\<forall>c order. snd (startDiscovery (p\<lparr>pa_check := c, pa_check_order := order\<rparr>)) =
              (case rn_requestBluetoothEnabled p of
                 Resolved enabled \<Rightarrow> Resolved JUndefined
               | Rejected e \<Rightarrow> Rejected (JError ''Failed to enable Bluetooth''))))
   \<and> (\<forall>e. rn_isBluetoothEnabled p = Rejected e \<longrightarrow>
        startDiscovery p =
          ([Native IsBluetoothEnabled, Console Error [e]],
           Rejected (JError ''Failed to check if Bluetooth is enabled'')))"
proof -
  let ?granted = "\<forall>perm \<in> set ALL_PERMISSIONS. pa_check p perm = Resolved (Resolved True)"
  let ?checks = "map (\<lambda>perm. Native (Check perm)) (attempted_checks p)"
  have enable_natives:
    "filter is_native (fst (enableBluetooth q)) = [Native RequestBluetoothEnabled]" for q
    by (simp add: enableBluetooth_cases split: settled.splits)
  have resolved: "(\<exists>branch. fst (startDiscovery p) =
          fst (isBluetoothEnabled p) @ fst (checkAllPermissions p) @ branch
        \<and> filter is_native branch =
            (if \<not> b then [Native RequestBluetoothEnabled]
             else if snd (checkAllPermissions p) = Resolved True
               then [Native StartDiscovery, Native CancelDiscovery]
             else []))
      \<and> filter is_native (fst (startDiscovery p)) =
          Native IsBluetoothEnabled # ?checks @
            (if \<not> b then [Native RequestBluetoothEnabled]
             else if ?granted then [Native StartDiscovery, Native CancelDiscovery]
             else [])"
    if r: "rn_isBluetoothEnabled p = Resolved b" for b
  proof (cases b)
    case False
    with r have off: "rn_isBluetoothEnabled p = Resolved False" by simp
    have "fst (startDiscovery p) =
            fst (isBluetoothEnabled p) @ fst (checkAllPermissions p) @ fst (enableBluetooth p)"
      using off by (simp add: startDiscovery_disabled isBluetoothEnabled_cases)
    moreover have "filter is_native (fst (startDiscovery p)) =
        Native IsBluetoothEnabled # ?checks @ [Native RequestBluetoothEnabled]"
      using off by (simp add: startDiscovery_disabled checkAll_calls enable_natives)
    ultimately show ?thesis
      using False enable_natives [of p] by auto
  next
    case True
    with r have on: "rn_isBluetoothEnabled p = Resolved True" by simp
    show ?thesis
    proof (cases ?granted)
      case g: True
      then have yes: "snd (checkAllPermissions p) = Resolved True"
        by (simp add: checkAll_result)
      have "fst (startDiscovery p) =
          fst (isBluetoothEnabled p) @ fst (checkAllPermissions p) @
            (Native StartDiscovery #
              (case rn_startDiscovery p of
                 Resolved ds \<Rightarrow> [] | Rejected e \<Rightarrow> [Console Error [e]]) @
              Native CancelDiscovery #
              (case rn_cancelDiscovery p of
                 Resolved c \<Rightarrow> [Console Log [JStr ''Discovery stopped'']]
               | Rejected e \<Rightarrow> []))"
        using on by (simp add: startDiscovery_discovering [OF on yes] isBluetoothEnabled_cases)
      moreover have "filter is_native
            (Native StartDiscovery #
              (case rn_startDiscovery p of
                 Resolved ds \<Rightarrow> [] | Rejected e \<Rightarrow> [Console Error [e]]) @
              Native CancelDiscovery #
              (case rn_cancelDiscovery p of
                 Resolved c \<Rightarrow> [Console Log [JStr ''Discovery stopped'']]
               | Rejected e \<Rightarrow> []))
          = [Native StartDiscovery, Native CancelDiscovery]"
        by (simp split: settled.splits)
      moreover have "filter is_native (fst (startDiscovery p)) =
          Native IsBluetoothEnabled # ?checks @ [Native StartDiscovery, Native CancelDiscovery]"
        by (simp add: startDiscovery_discovering [OF on yes] checkAll_calls
              split: settled.splits)
      ultimately show ?thesis
        using True g yes by auto
    next
      case False
      then have no: "snd (checkAllPermissions p) = Resolved False"
        by (simp add: checkAll_result)
      have "fst (startDiscovery p) = fst (isBluetoothEnabled p) @ fst (checkAllPermissions p) @ []"
        using on by (simp add: startDiscovery_denied [OF on no] isBluetoothEnabled_cases)
      moreover have "filter is_native (fst (startDiscovery p)) =
          Native IsBluetoothEnabled # ?checks"
        by (simp add: startDiscovery_denied [OF on no] checkAll_calls)
      ultimately show ?thesis
        using True False no by auto
    qed
  qed
  have first_check: "take 1 (attempted_checks p) = [BLUETOOTH_SCAN]"
    by (simp add: attempted_checks_def ALL_PERMISSIONS_def)
  have all_checks: "attempted_checks p = ALL_PERMISSIONS"
    if "\<forall>perm \<in> set ALL_PERMISSIONS. \<not> is_rejected (pa_check p perm)"
    using that by (simp add: attempted_checks_def ALL_PERMISSIONS_def)
  have disabled_trace: "\<exists>l a. (l = Warn \<or> l = Error)
           \<and> fst (startDiscovery p) =
               Native IsBluetoothEnabled # ?checks @
                 (if ?granted then [] else [Console l a]) @
                 Native RequestBluetoothEnabled #
                 (case rn_requestBluetoothEnabled p of
                    Resolved enabled \<Rightarrow> []
                  | Rejected e \<Rightarrow> [Console Error [JStr ''Error enabling Bluetooth'', e]])"
    if off: "rn_isBluetoothEnabled p = Resolved False"
  proof -
    obtain l a where la: "l = Warn \<or> l = Error"
      and "checkAllPermissions p =
         (?checks @ (if ?granted then [] else [Console l a]), Resolved ?granted)"
      using checkAll_shape [of p] by blast
    then have "fst (startDiscovery p) =
               Native IsBluetoothEnabled # ?checks @
                 (if ?granted then [] else [Console l a]) @
                 Native RequestBluetoothEnabled #
                 (case rn_requestBluetoothEnabled p of
                    Resolved enabled \<Rightarrow> []
                  | Rejected e \<Rightarrow> [Console Error [JStr ''Error enabling Bluetooth'', e]])"
      by (simp add: startDiscovery_disabled [OF off] enableBluetooth_cases split: settled.splits)
    with la show ?thesis by blast
  qed
  have discarded: "snd (startDiscovery (p\<lparr>pa_check := c, pa_check_order := order\<rparr>)) =
              (case rn_requestBluetoothEnabled p of
                 Resolved enabled \<Rightarrow> Resolved JUndefined
               | Rejected e \<Rightarrow> Rejected (JError ''Failed to enable Bluetooth''))"
    if off: "rn_isBluetoothEnabled p = Resolved False" for c order
  proof -
    have "rn_isBluetoothEnabled (p\<lparr>pa_check := c, pa_check_order := order\<rparr>) = Resolved False"
      using off by simp
    then have "snd (startDiscovery (p\<lparr>pa_check := c, pa_check_order := order\<rparr>)) =
        snd (enableBluetooth (p\<lparr>pa_check := c, pa_check_order := order\<rparr>))"
      by (simp add: startDiscovery_disabled)
    then show ?thesis
      by (simp add: enableBluetooth_cases split: settled.splits)
  qed
  have not_checked: "startDiscovery p =
          ([Native IsBluetoothEnabled, Console Error [e]],
           Rejected (JError ''Failed to check if Bluetooth is enabled''))"
    if "rn_isBluetoothEnabled p = Rejected e" for e
    using that by (rule startDiscovery_unchecked)
  show ?thesis
    using resolved first_check all_checks disabled_trace discarded not_checked
    by (intro conjI allI impI) blast+
qed

theorem startDiscovery_checks_before_branch_witness:
  "rn_isBluetoothEnabled disabled_platform = Resolved False
   \<and> filter is_native (fst (startDiscovery disabled_platform)) =
       [Native IsBluetoothEnabled, Native (Check BLUETOOTH_SCAN),
        Native (Check BLUETOOTH_CONNECT), Native (Check ACCESS_FINE_LOCATION),
        Native RequestBluetoothEnabled]
   \<and> filter is_native
        (fst (startDiscovery
           (disabled_platform \<lparr> pa_check := (\<lambda>perm. Rejected (JError ''no module'')) \<rparr>))) =
       [Native IsBluetoothEnabled, Native (Check BLUETOOTH_SCAN), Native RequestBluetoothEnabled]
   \<and> snd (startDiscovery
            (disabled_platform \<lparr> pa_check := (\<lambda>perm. Resolved (Resolved True)),
                                  pa_check_order := [] \<rparr>)) =
       Resolved JUndefined"
proof -
  have off: "rn_isBluetoothEnabled disabled_platform = Resolved False"
    by (simp add: disabled_platform_def)
  have off': "rn_isBluetoothEnabled
      (disabled_platform \<lparr> pa_check := (\<lambda>perm. Rejected (JError ''no module'')) \<rparr>)
        = Resolved False"
    by (simp add: disabled_platform_def)
  let ?unavailable =
    "disabled_platform \<lparr> pa_check := (\<lambda>perm. Rejected (JError ''no module'')) \<rparr>"
  note answered = startDiscovery_checks_before_branch [of disabled_platform]
  note thrown = startDiscovery_checks_before_branch [of ?unavailable]
  have "attempted_checks disabled_platform =
      [BLUETOOTH_SCAN, BLUETOOTH_CONNECT, ACCESS_FINE_LOCATION]"
    by (simp add: attempted_checks_def ALL_PERMISSIONS_def is_rejected_def
          disabled_platform_def working_platform_def)
  moreover from answered off have "filter is_native (fst (startDiscovery disabled_platform)) =
      Native IsBluetoothEnabled #
        map (\<lambda>perm. Native (Check perm)) (attempted_checks disabled_platform) @
        (if \<not> False then [Native RequestBluetoothEnabled]
         else if \<forall>perm \<in> set ALL_PERMISSIONS.
                   pa_check disabled_platform perm = Resolved (Resolved True)
           then [Native StartDiscovery, Native CancelDiscovery]
         else [])"
    by blast
  ultimately have all_three: "filter is_native (fst (startDiscovery disabled_platform)) =
       [Native IsBluetoothEnabled, Native (Check BLUETOOTH_SCAN),
        Native (Check BLUETOOTH_CONNECT), Native (Check ACCESS_FINE_LOCATION),
        Native RequestBluetoothEnabled]"
    by simp
  have "attempted_checks ?unavailable = [BLUETOOTH_SCAN]"
    by (simp add: attempted_checks_def ALL_PERMISSIONS_def is_rejected_def)
  moreover from thrown off' have "filter is_native (fst (startDiscovery ?unavailable)) =
      Native IsBluetoothEnabled #
        map (\<lambda>perm. Native (Check perm)) (attempted_checks ?unavailable) @
        (if \<not> False then [Native RequestBluetoothEnabled]
         else if \<forall>perm \<in> set ALL_PERMISSIONS.
                   pa_check ?unavailable perm = Resolved (Resolved True)
           then [Native StartDiscovery, Native CancelDiscovery]
         else [])"
    by blast
  ultimately have only_one: "filter is_native (fst (startDiscovery ?unavailable)) =
       [Native IsBluetoothEnabled, Native (Check BLUETOOTH_SCAN), Native RequestBluetoothEnabled]"
    by simp
  have "rn_requestBluetoothEnabled disabled_platform = Resolved True"
    by (simp add: disabled_platform_def working_platform_def)
  moreover from answered off have
    "snd (startDiscovery
            (disabled_platform \<lparr> pa_check := (\<lambda>perm. Resolved (Resolved True)),
                                  pa_check_order := [] \<rparr>)) =
       (case rn_requestBluetoothEnabled disabled_platform of
          Resolved enabled \<Rightarrow> Resolved JUndefined
        | Rejected e \<Rightarrow> Rejected (JError ''Failed to enable Bluetooth''))"
    by blast
  ultimately have "snd (startDiscovery
            (disabled_platform \<lparr> pa_check := (\<lambda>perm. Resolved (Resolved True)),
                                  pa_check_order := [] \<rparr>)) = Resolved JUndefined"
    by simp
  with off all_three only_one show ?thesis
    by blast
qed

text \<open>
  On a platform whose enabled check fails, \<open>startDiscovery\<close> makes no permission check
  at all.
\<close>

theorem startDiscovery_skips_permission_check_counterexample:
  "startDiscovery broken_platform =
     ([Native IsBluetoothEnabled, Console Error [JError ''native'']],
      Rejected (JError ''Failed to check if Bluetooth is enabled''))
   \<and> calls (Check BLUETOOTH_SCAN) (fst (startDiscovery broken_platform)) = 0
   \<and> calls (Check BLUETOOTH_SCAN) (fst (checkAllPermissions broken_platform)) = 1"
proof -
  have "rn_isBluetoothEnabled broken_platform = Rejected (JError ''native'')"
    by (simp add: broken_platform_def)
  then have "startDiscovery broken_platform =
     ([Native IsBluetoothEnabled, Console Error [JError ''native'']],
      Rejected (JError ''Failed to check if Bluetooth is enabled''))"
    by (rule startDiscovery_unchecked)
  moreover have "calls (Check BLUETOOTH_SCAN) (fst (checkAllPermissions broken_platform)) = 1"
    using checkAll_shape [of broken_platform]
    by (auto simp: broken_platform_def working_platform_def attempted_checks_def
          ALL_PERMISSIONS_def is_rejected_def)
  ultimately show ?thesis by simp
qed

end
